theory Spec2Isabelle
  imports Main "HOL-Library.Char_ord" "HOL-Library.List_Lexorder" "HOL-Library.Sublist"
begin

text \<open>
  A model of the planner and the applier of \<open>unstuck\<close>, a tool that diagnoses
  Kubernetes objects stuck in termination and removes what blocks them: the data model,
  the risk classifier, the dependency orderer, the planner with its escalation levels,
  the executor, and the loop that applies a plan. The definitions follow the Go source
  function by function; the properties come after them, each with the claim it settles.
\<close>

section \<open>Data model (pkg/types)\<close>

text \<open>
  Go strings are byte sequences and are modelled as \<open>string\<close> (lists of 8-bit
  characters); \<open><\<close> on strings is the byte-wise lexicographic order, as in Go.
  \<open>ActionType\<close>, \<open>RiskLevel\<close> and \<open>TargetType\<close> are declared in the source as
  named string types with a few constants, so every string is a value of them and the
  zero value is the empty string. \<open>EscalationLevel\<close> is a named \<open>int\<close>.
  Wall-clock fields (timestamps, durations) are not part of the model.
\<close>

type_synonym ActionType = string
type_synonym RiskLevel = string
type_synonym TargetType = string
type_synonym EscalationLevel = int

definition TargetTypeNamespace :: TargetType where "TargetTypeNamespace = ''namespace''"
definition TargetTypeCRD :: TargetType where "TargetTypeCRD = ''crd''"
definition TargetTypeResource :: TargetType where "TargetTypeResource = ''resource''"

definition ActionInspect :: ActionType where "ActionInspect = ''inspect''"
definition ActionList :: ActionType where "ActionList = ''list''"
definition ActionPatch :: ActionType where "ActionPatch = ''patch''"
definition ActionDelete :: ActionType where "ActionDelete = ''delete''"
definition ActionFinalize :: ActionType where "ActionFinalize = ''finalize''"
definition ActionWait :: ActionType where "ActionWait = ''wait''"

definition RiskNone :: RiskLevel where "RiskNone = ''none''"
definition RiskLow :: RiskLevel where "RiskLow = ''low''"
definition RiskMedium :: RiskLevel where "RiskMedium = ''medium''"
definition RiskHigh :: RiskLevel where "RiskHigh = ''high''"
definition RiskCritical :: RiskLevel where "RiskCritical = ''critical''"

definition EscalationInfo :: EscalationLevel where "EscalationInfo = 0"
definition EscalationClean :: EscalationLevel where "EscalationClean = 1"
definition EscalationFinalizer :: EscalationLevel where "EscalationFinalizer = 2"
definition EscalationCRD :: EscalationLevel where "EscalationCRD = 3"
definition EscalationForce :: EscalationLevel where "EscalationForce = 4"

lemmas const_defs =
  TargetTypeNamespace_def TargetTypeCRD_def TargetTypeResource_def
  ActionInspect_def ActionList_def ActionPatch_def ActionDelete_def
  ActionFinalize_def ActionWait_def
  RiskNone_def RiskLow_def RiskMedium_def RiskHigh_def RiskCritical_def
  EscalationInfo_def EscalationClean_def EscalationFinalizer_def
  EscalationCRD_def EscalationForce_def

record ResourceRef =
  Kind :: string
  APIVersion :: string
  Namespace :: string
  Name :: string

text \<open>\<open>ResourceRef.String\<close>: \<open>kind/namespace/name\<close>, or \<open>kind/name\<close> without namespace.\<close>

definition RefString :: "ResourceRef \<Rightarrow> string" where
  "RefString r =
     (if Namespace r \<noteq> '''' then Kind r @ ''/'' @ Namespace r @ ''/'' @ Name r
      else Kind r @ ''/'' @ Name r)"

text \<open>
  A \<open>Blocker\<close> embeds a \<open>ResourceRef\<close>; the planner reads only the embedded fields.
  Of \<open>DiagnosisReport\<close>, \<open>ControllerStatus\<close> and \<open>Blocker\<close> the records below keep
  the fields that the planner reads (and the blocker's finalizers). Where two structs of
  the source share a field name, the later record prefixes it: \<open>DiagTarget\<close>,
  \<open>DiagTargetType\<close>, \<open>PlanTarget\<close>, \<open>ControllerName\<close>, \<open>ControllerNamespace\<close>,
  \<open>FailedResource\<close>, \<open>FailureError\<close>.
\<close>

record Blocker = ResourceRef +
  Finalizers :: "string list"

record DiscoveryFailure =
  GroupVersion :: string
  FailedResource :: string
  FailureError :: string

record ControllerStatus =
  ControllerName :: string
  ControllerNamespace :: string
  Available :: bool
  Ready :: bool

record DiagnosisReport =
  DiagTarget :: ResourceRef
  DiagTargetType :: TargetType
  Status :: string
  Blockers :: "Blocker list"
  DiscoveryFailures :: "DiscoveryFailure list"
  Controllers :: "ControllerStatus list"

definition IsHealthy :: "DiagnosisReport \<Rightarrow> bool" where
  "IsHealthy r \<longleftrightarrow> Status r = ''Active'' \<or> Status r = ''Bound'' \<or> Status r = ''''"

definition HasDiscoveryFailures :: "DiagnosisReport \<Rightarrow> bool" where
  "HasDiscoveryFailures r \<longleftrightarrow> length (DiscoveryFailures r) > 0"

text \<open>
  An \<open>Action\<close>. The two free-text display fields of the source struct
  (\<open>Description\<close>, \<open>ExpectedResult\<close>) and the fields the planner never sets
  (\<open>DependsOn\<close>, \<open>Timeout\<close>) are left out: no function below reads them.
\<close>

record Action =
  ID :: string
  Type :: ActionType
  EscalationLevel :: EscalationLevel
  Target :: ResourceRef
  Operation :: string
  Command :: string
  Risk :: RiskLevel
  RequiresForce :: bool

record Plan =
  PlanTarget :: ResourceRef
  RiskLevel :: RiskLevel
  MaxEscalation :: EscalationLevel
  Actions :: "Action list"
  Commands :: "string list"

section \<open>Risk classifier (pkg/planner/risk.go)\<close>

definition ranks :: "(RiskLevel \<times> int) list" where
  "ranks = [(RiskNone, 0), (RiskLow, 1), (RiskMedium, 2), (RiskHigh, 3), (RiskCritical, 4)]"

definition rankOf :: "RiskLevel \<Rightarrow> int" where
  "rankOf a = (case map_of ranks a of Some r \<Rightarrow> r | None \<Rightarrow> 0)"

definition compareRisk :: "RiskLevel \<Rightarrow> RiskLevel \<Rightarrow> int" where
  "compareRisk a b =
     (let ra = rankOf a; rb = rankOf b
      in if ra < rb then -1 else if ra > rb then 1 else 0)"

definition CalculateRiskLevel :: "Action list \<Rightarrow> RiskLevel" where
  "CalculateRiskLevel actions =
     (if length actions = 0 then RiskNone
      else foldl (\<lambda>maxRisk action.
                    if compareRisk (Risk action) maxRisk > 0 then Risk action else maxRisk)
             RiskNone actions)"

definition GenerateCommands :: "Action list \<Rightarrow> string list" where
  "GenerateCommands actions = filter (\<lambda>c. c \<noteq> '''') (map Command actions)"

section \<open>Dependency orderer (pkg/planner/ordering.go)\<close>

text \<open>
  \<open>strings.ToLower\<close>. For a string of ASCII bytes Go lowers each byte in
  \<open>A..Z\<close> by adding \<open>'a' - 'A'\<close>; that is what \<open>ToLower\<close> does here. Go maps
  multi-byte UTF-8 sequences through its Unicode tables; those tables are not modelled,
  so statements that depend on the result of \<open>ToLower\<close> are made for ASCII input
  (\<open>isASCII\<close>).
\<close>

definition isASCII :: "string \<Rightarrow> bool" where
  "isASCII s \<longleftrightarrow> (\<forall>c \<in> set s. (of_char c :: nat) < 128)"

definition isUpperChar :: "char \<Rightarrow> bool" where
  "isUpperChar c \<longleftrightarrow> (65::nat) \<le> of_char c \<and> of_char c \<le> (90::nat)"

definition lowerChar :: "char \<Rightarrow> char" where
  "lowerChar c = (if isUpperChar c then char_of (of_char c + (32::nat)) else c)"

definition ToLower :: "string \<Rightarrow> string" where
  "ToLower s = map lowerChar s"

definition leafKinds :: "string list" where
  "leafKinds = [''pod'', ''configmap'', ''secret'', ''service'', ''endpoint'', ''endpoints'']"

definition workloadKinds :: "string list" where
  "workloadKinds =
     [''deployment'', ''statefulset'', ''daemonset'', ''replicaset'', ''job'', ''cronjob'']"

definition customKinds :: "string list" where
  "customKinds = [''certificate'', ''issuer'', ''clusterissuer'']"

definition resourcePriority :: "string \<Rightarrow> int" where
  "resourcePriority kind =
     (let k = ToLower kind
      in if k \<in> set leafKinds then 10
         else if k \<in> set workloadKinds then 20
         else if k \<in> set customKinds then 30
         else if k = ''customresourcedefinition'' then 100
         else if k = ''namespace'' then 200
         else 50)"

definition resourceKey :: "ResourceRef \<Rightarrow> string" where
  "resourceKey r =
     (if Namespace r \<noteq> '''' then Kind r @ ''/'' @ Namespace r @ ''/'' @ Name r
      else Kind r @ ''/'' @ Name r)"

text \<open>
  The comparison closure handed to \<open>sort.SliceStable\<close> in \<open>OrderByDependencies\<close>.
\<close>

definition actionLess :: "Action \<Rightarrow> Action \<Rightarrow> bool" where
  "actionLess a b =
     (if EscalationLevel a \<noteq> EscalationLevel b then EscalationLevel a < EscalationLevel b
      else let pi = resourcePriority (Kind (Target a));
               pj = resourcePriority (Kind (Target b))
           in if pi \<noteq> pj then pi < pj
              else Name (Target a) < Name (Target b))"

text \<open>
  \<open>sort.SliceStable\<close> is modelled as stable insertion sort: an element is put in
  front of the first later element that is not less than it.
\<close>

fun insertStable :: "('a \<Rightarrow> 'a \<Rightarrow> bool) \<Rightarrow> 'a \<Rightarrow> 'a list \<Rightarrow> 'a list" where
  "insertStable lt x [] = [x]"
| "insertStable lt x (y # ys) =
     (if lt y x then y # insertStable lt x ys else x # y # ys)"

fun SliceStable :: "('a \<Rightarrow> 'a \<Rightarrow> bool) \<Rightarrow> 'a list \<Rightarrow> 'a list" where
  "SliceStable lt [] = []"
| "SliceStable lt (x # xs) = insertStable lt x (SliceStable lt xs)"

definition OrderByDependencies :: "Action list \<Rightarrow> Action list" where
  "OrderByDependencies actions =
     (if length actions = 0 then actions else SliceStable actionLess actions)"

text \<open>
  \<open>TopologicalSort\<close>. A Go map is modelled as an association list with distinct keys:
  \<open>map_of\<close> looks a key up and \<open>store\<close> assigns to it, in place when the key is
  present and at the end otherwise. The order of the list is the order in which
  \<open>range\<close> visits the map, which Go leaves open; \<open>ownerRefs\<close> is given in that
  order. \<open>sort.Strings\<close> is \<open>sort\<close> on the byte-wise order of strings.
\<close>

fun store :: "'k \<Rightarrow> 'v \<Rightarrow> ('k \<times> 'v) list \<Rightarrow> ('k \<times> 'v) list" where
  "store k v [] = [(k, v)]"
| "store k v ((k', v') # m) = (if k' = k then (k, v) # m else (k', v') # store k v m)"

text \<open>Reading a map at a key that may be absent gives the zero value.\<close>

definition degreeOf :: "(string \<times> int) list \<Rightarrow> string \<Rightarrow> int" where
  "degreeOf inDegree key = (case map_of inDegree key of Some n \<Rightarrow> n | None \<Rightarrow> 0)"

definition dependentsOf :: "(string \<times> string list) list \<Rightarrow> string \<Rightarrow> string list" where
  "dependentsOf dependents key = (case map_of dependents key of Some ds \<Rightarrow> ds | None \<Rightarrow> [])"

text \<open>The first loop: every action's key gets in-degree 0 unless it is there already.\<close>

fun initDegrees :: "Action list \<Rightarrow> (string \<times> int) list \<Rightarrow> (string \<times> int) list" where
  "initDegrees [] inDegree = inDegree"
| "initDegrees (action # actions) inDegree =
     (let key = resourceKey (Target action)
      in initDegrees actions
           (if map_of inDegree key = None then store key 0 inDegree else inDegree))"

text \<open>The second loop, over the owners of one key and over the edge map.\<close>

fun addOwners ::
    "string \<Rightarrow> string list \<Rightarrow> (string \<times> int) list \<times> (string \<times> string list) list
       \<Rightarrow> (string \<times> int) list \<times> (string \<times> string list) list" where
  "addOwners key [] (inDegree, dependents) = (inDegree, dependents)"
| "addOwners key (owner # owners) (inDegree, dependents) =
     addOwners key owners
       (if map_of inDegree owner \<noteq> None
        then (store key (degreeOf inDegree key + 1) inDegree,
              store owner (dependentsOf dependents owner @ [key]) dependents)
        else (inDegree, dependents))"

fun addEdges ::
    "(string \<times> string list) list \<Rightarrow> (string \<times> int) list \<times> (string \<times> string list) list
       \<Rightarrow> (string \<times> int) list \<times> (string \<times> string list) list" where
  "addEdges [] st = st"
| "addEdges ((key, owners) # ownerRefs) st = addEdges ownerRefs (addOwners key owners st)"

text \<open>
  Kahn's algorithm. \<open>relax\<close> is the inner loop over the dependents of the key taken
  from the queue; \<open>kahn\<close> is the loop that runs while the queue is not empty.
\<close>

fun relax ::
    "string list \<Rightarrow> (string \<times> int) list \<times> string list
       \<Rightarrow> (string \<times> int) list \<times> string list" where
  "relax [] (inDegree, queue) = (inDegree, queue)"
| "relax (dep # deps) (inDegree, queue) =
     (let d = degreeOf inDegree dep - 1
      in relax deps (store dep d inDegree, if d = 0 then queue @ [dep] else queue))"

function kahn ::
    "(string \<times> string list) list \<Rightarrow> (string \<times> int) list \<Rightarrow> string list \<Rightarrow> string list
       \<Rightarrow> string list" where
  "kahn dependents inDegree queue sortedKeys =
     (case queue of
        [] \<Rightarrow> sortedKeys
      | current # rest \<Rightarrow>
          (case relax (dependentsOf dependents current) (inDegree, rest) of
             (inDegree', queue') \<Rightarrow>
               kahn dependents inDegree' (sort queue') (sortedKeys @ [current])))"
  by pat_completeness auto

text \<open>
  The third part: the actions of the sorted keys, each key once, then every action
  whose key was not seen.
\<close>

fun pickSorted ::
    "(string \<times> Action) list \<Rightarrow> string list \<Rightarrow> string list \<Rightarrow> Action list \<times> string list" where
  "pickSorted actionMap [] seen = ([], seen)"
| "pickSorted actionMap (key # keys) seen =
     (case map_of actionMap key of
        Some action \<Rightarrow>
          (if key \<notin> set seen
           then (case pickSorted actionMap keys (key # seen) of
                   (result, seen') \<Rightarrow> (action # result, seen'))
           else pickSorted actionMap keys seen)
      | None \<Rightarrow> pickSorted actionMap keys seen)"

definition TopologicalSort ::
    "Action list \<Rightarrow> (string \<times> string list) list \<Rightarrow> Action list" where
  "TopologicalSort actions ownerRefs =
     (if length actions = 0 then actions
      else if length ownerRefs = 0 then OrderByDependencies actions
      else (case addEdges ownerRefs (initDegrees actions [], []) of
              (inDegree, dependents) \<Rightarrow>
                (let queue = sort (map fst (filter (\<lambda>(key, degree). degree = 0) inDegree));
                     sortedKeys = rev (kahn dependents inDegree queue []);
                     actionMap = foldl (\<lambda>m action. store (resourceKey (Target action)) action m)
                                   [] actions
                 in case pickSorted actionMap sortedKeys [] of
                      (result, seen) \<Rightarrow>
                        result @ filter (\<lambda>action. resourceKey (Target action) \<notin> set seen)
                                   actions)))"

text \<open>
  The queue and the positive in-degrees together shrink with every key taken from the
  queue.
\<close>

definition weight :: "(string \<times> int) list \<Rightarrow> nat" where
  "weight inDegree = sum_list (map (\<lambda>(k, v). nat v) inDegree)"

lemma weight_store_absent: "map_of m k = None \<Longrightarrow> weight (store k v m) = weight m + nat v"
  by (induction m) (auto simp: weight_def)

lemma weight_store_present:
  "map_of m k = Some n \<Longrightarrow> weight (store k v m) + nat n = weight m + nat v"
  by (induction m) (auto simp: weight_def)

lemma weight_decrement:
  "length (if degreeOf m k - 1 = 0 then q @ [k] else q)
     + 2 * weight (store k (degreeOf m k - 1) m) \<le> length q + 2 * weight m"
proof (cases "map_of m k")
  case None
  then show ?thesis by (simp add: degreeOf_def weight_store_absent)
next
  case (Some n)
  from weight_store_present[OF this, of "n - 1"]
  have "weight (store k (n - 1) m) + nat n = weight m + nat (n - 1)" .
  with Some show ?thesis by (auto simp: degreeOf_def)
qed

lemma relax_weight:
  "relax deps (m, q) = (m', q') \<Longrightarrow> length q' + 2 * weight m' \<le> length q + 2 * weight m"
proof (induction deps arbitrary: m q)
  case Nil
  then show ?case by simp
next
  case (Cons dep deps)
  let ?d = "degreeOf m dep - 1"
  from Cons.prems
  have "relax deps (store dep ?d m, if ?d = 0 then q @ [dep] else q) = (m', q')"
    by (simp add: Let_def)
  from Cons.IH[OF this] weight_decrement[of m dep q] show ?case by linarith
qed

termination kahn
proof (relation "measure (\<lambda>(dependents, inDegree, queue, sortedKeys).
                            length queue + 2 * weight inDegree)")
  show "wf (measure (\<lambda>(dependents, inDegree, queue, sortedKeys).
                            length queue + 2 * weight inDegree))"
    by simp
next
  fix dependents :: "(string \<times> string list) list"
    and inDegree inDegree' :: "(string \<times> int) list"
    and queue rest queue' sortedKeys :: "string list" and current
  assume "queue = current # rest"
    and "(inDegree', queue') = relax (dependentsOf dependents current) (inDegree, rest)"
  then have "relax (dependentsOf dependents current) (inDegree, rest) = (inDegree', queue')"
    by simp
  from relax_weight[OF this] \<open>queue = current # rest\<close>
  show "((dependents, inDegree', sort queue', sortedKeys @ [current]),
         (dependents, inDegree, queue, sortedKeys))
        \<in> measure (\<lambda>(dependents, inDegree, queue, sortedKeys).
                            length queue + 2 * weight inDegree)"
    by simp
qed

declare kahn.simps [simp del]

section \<open>Planner (pkg/planner/planner.go)\<close>

record Planner =
  maxEscalation :: EscalationLevel
  allowForce :: bool

definition infoActions :: "Planner \<Rightarrow> DiagnosisReport \<Rightarrow> Action list" where
  "infoActions p diagnosis =
     [\<lparr>ID = '''', Type = ActionInspect, EscalationLevel = EscalationInfo,
       Target = DiagTarget diagnosis, Operation = ''inspect'', Command = '''',
       Risk = RiskNone, RequiresForce = False\<rparr>]
     @ (if length (Blockers diagnosis) > 0
        then [\<lparr>ID = '''', Type = ActionList, EscalationLevel = EscalationInfo,
                Target = DiagTarget diagnosis, Operation = ''list-blockers'', Command = '''',
                Risk = RiskNone, RequiresForce = False\<rparr>]
        else [])"

definition cleanPathActions :: "Planner \<Rightarrow> DiagnosisReport \<Rightarrow> Action list" where
  "cleanPathActions p diagnosis =
     [\<lparr>ID = '''', Type = ActionWait, EscalationLevel = EscalationClean,
       Target = DiagTarget diagnosis, Operation = ''wait-controller'', Command = '''',
       Risk = RiskLow, RequiresForce = False\<rparr>]"

definition generatePatchCommand :: "ResourceRef \<Rightarrow> string" where
  "generatePatchCommand target =
     (let kind = (if Kind target = '''' then ''resource'' else Kind target);
          cmd = ''kubectl patch '' @ kind @ '' '' @ Name target;
          cmd = (if Namespace target \<noteq> '''' then cmd @ '' -n '' @ Namespace target else cmd)
      in cmd @ '' -p '' @ [CHR 0x27] @ ''{'' @ [CHR 0x22] @ ''metadata'' @ [CHR 0x22] @ '':{''
             @ [CHR 0x22] @ ''finalizers'' @ [CHR 0x22] @ '':null}}'' @ [CHR 0x27]
             @ '' --type=merge'')"

definition finalizerRemovalAction :: "Planner \<Rightarrow> Blocker \<Rightarrow> string \<Rightarrow> Action" where
  "finalizerRemovalAction p blocker namespace =
     (let ns = (if Namespace blocker = '''' then namespace else Namespace blocker);
          target = \<lparr>Kind = Kind blocker, APIVersion = APIVersion blocker,
                    Namespace = ns, Name = Name blocker\<rparr>
      in \<lparr>ID = '''', Type = ActionPatch, EscalationLevel = EscalationFinalizer,
          Target = target, Operation = ''remove-finalizers'',
          Command = generatePatchCommand target,
          Risk = RiskMedium, RequiresForce = False\<rparr>)"

definition generateCRDPatchCommand :: "string \<Rightarrow> string" where
  "generateCRDPatchCommand crdName =
     ''kubectl patch crd '' @ crdName @ '' -p '' @ [CHR 0x27] @ ''{'' @ [CHR 0x22]
       @ ''metadata'' @ [CHR 0x22] @ '':{'' @ [CHR 0x22] @ ''finalizers'' @ [CHR 0x22]
       @ '':null}}'' @ [CHR 0x27] @ '' --type=merge''"

definition crdFinalizerAction :: "Planner \<Rightarrow> ResourceRef \<Rightarrow> Action" where
  "crdFinalizerAction p target =
     \<lparr>ID = '''', Type = ActionPatch, EscalationLevel = EscalationCRD,
      Target = \<lparr>Kind = ''CustomResourceDefinition'', APIVersion = ''apiextensions.k8s.io/v1'',
                Namespace = '''', Name = Name target\<rparr>,
      Operation = ''remove-crd-finalizer'',
      Command = generateCRDPatchCommand (Name target),
      Risk = RiskHigh, RequiresForce = True\<rparr>"

definition generateForceFinalize :: "string \<Rightarrow> string" where
  "generateForceFinalize namespaceName =
     ''kubectl get namespace '' @ namespaceName @ '' -o json | jq '' @ [CHR 0x27]
       @ ''.spec.finalizers = []'' @ [CHR 0x27] @ '' | kubectl replace --raw '' @ [CHR 0x22]
       @ ''/api/v1/namespaces/'' @ namespaceName @ ''/finalize'' @ [CHR 0x22] @ '' -f -''"

definition forceFinalize :: "Planner \<Rightarrow> string \<Rightarrow> Action" where
  "forceFinalize p namespaceName =
     \<lparr>ID = '''', Type = ActionFinalize, EscalationLevel = EscalationForce,
      Target = \<lparr>Kind = ''Namespace'', APIVersion = ''v1'', Namespace = '''',
                Name = namespaceName\<rparr>,
      Operation = ''force-finalize'',
      Command = generateForceFinalize namespaceName,
      Risk = RiskCritical, RequiresForce = True\<rparr>"

definition hasAvailableController :: "DiagnosisReport \<Rightarrow> bool" where
  "hasAvailableController diagnosis =
     list_ex (\<lambda>ctrl. Available ctrl \<and> Ready ctrl) (Controllers diagnosis)"

text \<open>
  \<open>fmt.Sprintf("action-%03d", i+1)\<close>: the decimal digits of a positive number, padded
  with zeros on the left to at least three characters.
\<close>

fun decimal :: "nat \<Rightarrow> string" where
  "decimal n =
     (if n < 10 then [char_of (48 + n)]
      else decimal (n div 10) @ [char_of (48 + n mod 10)])"

declare decimal.simps [simp del]

definition pad3 :: "string \<Rightarrow> string" where
  "pad3 s = replicate (3 - length s) (CHR ''0'') @ s"

definition assignIDs :: "Action list \<Rightarrow> Action list" where
  "assignIDs actions =
     map (\<lambda>(i, a). a\<lparr>ID := ''action-'' @ pad3 (decimal (i + 1))\<rparr>) (enumerate 0 actions)"

text \<open>
  The level-by-level part of \<open>Plan\<close>: every level appends its actions to the
  slice gathered so far when its guard holds, and appends nothing otherwise.
\<close>

definition gatherActions :: "Planner \<Rightarrow> DiagnosisReport \<Rightarrow> Action list" where
  "gatherActions p diagnosis =
     infoActions p diagnosis
     @ (if maxEscalation p \<ge> EscalationClean
        then (if hasAvailableController diagnosis then cleanPathActions p diagnosis else [])
        else [])
     @ (if maxEscalation p \<ge> EscalationFinalizer
        then map (\<lambda>blocker. finalizerRemovalAction p blocker
                                 (Namespace (DiagTarget diagnosis)))
                 (Blockers diagnosis)
        else [])
     @ (if maxEscalation p \<ge> EscalationCRD \<and> allowForce p
        then (if DiagTargetType diagnosis = TargetTypeCRD
              then [crdFinalizerAction p (DiagTarget diagnosis)] else [])
        else [])
     @ (if maxEscalation p \<ge> EscalationForce \<and> allowForce p
        then (if DiagTargetType diagnosis = TargetTypeNamespace
                 \<and> HasDiscoveryFailures diagnosis
              then [forceFinalize p (Name (DiagTarget diagnosis))] else [])
        else [])"

text \<open>
  \<open>Plan\<close> takes a pointer: \<open>None\<close> is the nil diagnosis, the only error case. The
  plan literal built first does not set \<open>RiskLevel\<close>, which therefore holds the zero
  value of its string type until the assignment at the end.
\<close>

definition Plan :: "Planner \<Rightarrow> DiagnosisReport option \<Rightarrow> string + Plan" where
  "Plan p diagnosis =
     (case diagnosis of
        None \<Rightarrow> Inl ''diagnosis report is nil''
      | Some d \<Rightarrow>
          (let plan = \<lparr>PlanTarget = DiagTarget d, RiskLevel = '''',
                       MaxEscalation = maxEscalation p, Actions = [], Commands = []\<rparr>
           in if IsHealthy d then Inr plan
              else (let orderedActions = assignIDs (OrderByDependencies (gatherActions p d))
                    in Inr (plan\<lparr>Actions := orderedActions,
                                 RiskLevel := CalculateRiskLevel orderedActions,
                                 Commands := GenerateCommands orderedActions\<rparr>))))"

section \<open>Executor (pkg/applier/executor.go)\<close>

text \<open>
  A Go \<open>error\<close> is represented by its message. A run-time panic (an index or a slice
  bound out of range) is a failure of its own: it is not an \<open>error\<close> value and no
  \<open>err != nil\<close> test sees it.
\<close>

type_synonym error = string

datatype failure = Err error | Panic string

record GroupVersionResource =
  Group :: string
  Version :: string
  Resource :: string

text \<open>
  \<open>strings.Split\<close> with a one-byte separator, \<open>strings.HasSuffix\<close> and
  \<open>strings.Contains\<close>.
\<close>

fun splitFrom :: "string \<Rightarrow> string \<Rightarrow> char \<Rightarrow> string list" where
  "splitFrom cur [] sep = [cur]"
| "splitFrom cur (c # cs) sep =
     (if c = sep then cur # splitFrom [] cs sep else splitFrom (cur @ [c]) cs sep)"

definition Split :: "string \<Rightarrow> char \<Rightarrow> string list" where
  "Split s sep = splitFrom [] s sep"

definition HasSuffix :: "string \<Rightarrow> string \<Rightarrow> bool" where
  "HasSuffix s suf \<longleftrightarrow> suffix suf s"

definition Contains :: "string \<Rightarrow> string \<Rightarrow> bool" where
  "Contains s sub \<longleftrightarrow> sublist sub s"

text \<open>Indexing \<open>xs[i]\<close> and slicing \<open>s[:n]\<close> panic out of range.\<close>

definition index :: "'a list \<Rightarrow> int \<Rightarrow> failure + 'a" where
  "index xs i =
     (if 0 \<le> i \<and> i < int (length xs) then Inr (xs ! nat i)
      else Inl (Panic ''index out of range''))"

definition sliceTo :: "string \<Rightarrow> int \<Rightarrow> failure + string" where
  "sliceTo s n =
     (if 0 \<le> n \<and> n \<le> int (length s) then Inr (take (nat n) s)
      else Inl (Panic ''slice bounds out of range''))"

definition pluralize :: "string \<Rightarrow> failure + string" where
  "pluralize kind =
     (let lower = ToLower kind
      in if lower = ''endpoints'' then Inr ''endpoints''
         else if lower = ''ingress'' then Inr ''ingresses''
         else if lower = ''networkpolicy'' then Inr ''networkpolicies''
         else if lower = ''podsecuritypolicy'' then Inr ''podsecuritypolicies''
         else if lower = ''resourcequota'' then Inr ''resourcequotas''
         else if lower = ''limitrange'' then Inr ''limitranges''
         else if HasSuffix lower ''s'' then Inr (lower @ ''es'')
         else if HasSuffix lower ''y''
              then (case sliceTo lower (int (length lower) - 1) of
                      Inl f \<Rightarrow> Inl f
                    | Inr stem \<Rightarrow> Inr (stem @ ''ies''))
         else Inr (lower @ ''s''))"

definition resolveGVR :: "ResourceRef \<Rightarrow> failure + GroupVersionResource" where
  "resolveGVR target =
     (let gv = (if APIVersion target = '''' then ''v1'' else APIVersion target);
          parts = Split gv (CHR ''/'')
      in case (if length parts = 1
               then (case index parts 0 of
                       Inl f \<Rightarrow> Inl f
                     | Inr v \<Rightarrow> Inr ('''', v))
               else (case index parts 0 of
                       Inl f \<Rightarrow> Inl f
                     | Inr g \<Rightarrow> (case index parts 1 of
                                    Inl f \<Rightarrow> Inl f
                                  | Inr v \<Rightarrow> Inr (g, v)))) of
           Inl f \<Rightarrow> Inl f
         | Inr (grp, ver) \<Rightarrow>
             (case pluralize (Kind target) of
                Inl f \<Rightarrow> Inl f
              | Inr resource \<Rightarrow>
                  Inr \<lparr>Group = grp, Version = ver, Resource = resource\<rparr>))"

text \<open>
  The cluster, seen through the client. The state of the world (cluster and terminal)
  is a value of type \<open>'w\<close> that every call takes and returns; a call answers with an
  error or with the object read. Objects carry the fields the executor looks at.
\<close>

record NamespaceObj =
  NsFinalizers :: "string list"
  NsDeletionTimestamp :: "string option"
  NsSpecFinalizers :: "string list"
  NsPhase :: string

record CRDObj =
  CrdFinalizers :: "string list"
  CrdDeletionTimestamp :: "string option"

text \<open>
  An unstructured object, by what \<open>NestedStringSlice\<close> and \<open>NestedString\<close> return
  for \<open>metadata.finalizers\<close> and \<open>metadata.deletionTimestamp\<close>.
\<close>

record UnstructuredObj =
  ObjFinalizers :: "string list"
  ObjDeletionTimestamp :: string

record 'w Client =
  NamespacesGet :: "string \<Rightarrow> 'w \<Rightarrow> (error + NamespaceObj) \<times> 'w"
  NamespacesPatch :: "string \<Rightarrow> string \<Rightarrow> 'w \<Rightarrow> error option \<times> 'w"
  NamespacesDelete :: "string \<Rightarrow> 'w \<Rightarrow> error option \<times> 'w"
  NamespacesFinalize :: "NamespaceObj \<Rightarrow> 'w \<Rightarrow> error option \<times> 'w"
  CRDsGet :: "string \<Rightarrow> 'w \<Rightarrow> (error + CRDObj) \<times> 'w"
  CRDsPatch :: "string \<Rightarrow> string \<Rightarrow> 'w \<Rightarrow> error option \<times> 'w"
  CRDsDelete :: "string \<Rightarrow> 'w \<Rightarrow> error option \<times> 'w"
  DynamicGet :: "GroupVersionResource \<Rightarrow> string \<Rightarrow> string \<Rightarrow> 'w
                   \<Rightarrow> (error + UnstructuredObj) \<times> 'w"
  DynamicPatch :: "GroupVersionResource \<Rightarrow> string \<Rightarrow> string \<Rightarrow> string \<Rightarrow> 'w
                   \<Rightarrow> error option \<times> 'w"
  DynamicDelete :: "GroupVersionResource \<Rightarrow> string \<Rightarrow> string \<Rightarrow> 'w
                   \<Rightarrow> error option \<times> 'w"

definition patchData :: string where
  "patchData = ''{'' @ [CHR 0x22] @ ''metadata'' @ [CHR 0x22] @ '':{'' @ [CHR 0x22]
                 @ ''finalizers'' @ [CHR 0x22] @ '':null}}''"

text \<open>An error of the client, returned as it is.\<close>

definition asFailure :: "error option \<times> 'w \<Rightarrow> failure option \<times> 'w" where
  "asFailure r = (map_option Err (fst r), snd r)"

definition patchNamespace :: "'w Client \<Rightarrow> string \<Rightarrow> 'w \<Rightarrow> failure option \<times> 'w" where
  "patchNamespace c name w = asFailure (NamespacesPatch c name patchData w)"

definition patchCRD :: "'w Client \<Rightarrow> string \<Rightarrow> 'w \<Rightarrow> failure option \<times> 'w" where
  "patchCRD c name w = asFailure (CRDsPatch c name patchData w)"

definition patchDynamicResource ::
    "'w Client \<Rightarrow> ResourceRef \<Rightarrow> 'w \<Rightarrow> failure option \<times> 'w" where
  "patchDynamicResource c target w =
     (case resolveGVR target of
        Inl (Err e) \<Rightarrow> (Some (Err (''failed to resolve GVR: '' @ e)), w)
      | Inl (Panic m) \<Rightarrow> (Some (Panic m), w)
      | Inr gvr \<Rightarrow>
          asFailure (DynamicPatch c gvr (Namespace target) (Name target) patchData w))"

definition executePatch :: "'w Client \<Rightarrow> Action \<Rightarrow> 'w \<Rightarrow> failure option \<times> 'w" where
  "executePatch c action w =
     (let target = Target action
      in if Kind target = ''Namespace'' then patchNamespace c (Name target) w
         else if Kind target = ''CustomResourceDefinition'' then patchCRD c (Name target) w
         else patchDynamicResource c target w)"

definition executeDelete :: "'w Client \<Rightarrow> Action \<Rightarrow> 'w \<Rightarrow> failure option \<times> 'w" where
  "executeDelete c action w =
     (let target = Target action
      in if Kind target = ''Namespace'' then asFailure (NamespacesDelete c (Name target) w)
         else if Kind target = ''CustomResourceDefinition''
              then asFailure (CRDsDelete c (Name target) w)
         else (case resolveGVR target of
                 Inl (Err e) \<Rightarrow> (Some (Err (''failed to resolve GVR: '' @ e)), w)
               | Inl (Panic m) \<Rightarrow> (Some (Panic m), w)
               | Inr gvr \<Rightarrow>
                   asFailure (DynamicDelete c gvr (Namespace target) (Name target) w)))"

definition executeFinalize :: "'w Client \<Rightarrow> Action \<Rightarrow> 'w \<Rightarrow> failure option \<times> 'w" where
  "executeFinalize c action w =
     (let target = Target action
      in if Kind target \<noteq> ''Namespace''
         then (Some (Err (''finalize action only supports Namespace, got: '' @ Kind target)), w)
         else (case NamespacesGet c (Name target) w of
                 (Inl e, w') \<Rightarrow> (Some (Err (''failed to get namespace: '' @ e)), w')
               | (Inr ns, w') \<Rightarrow>
                   asFailure (NamespacesFinalize c (ns\<lparr>NsSpecFinalizers := []\<rparr>) w')))"

definition executeWait :: "'w Client \<Rightarrow> Action \<Rightarrow> 'w \<Rightarrow> failure option \<times> 'w" where
  "executeWait c action w = (None, w)"

definition Execute :: "'w Client \<Rightarrow> Action \<Rightarrow> 'w \<Rightarrow> failure option \<times> 'w" where
  "Execute c action w =
     (if Type action = ActionInspect then (None, w)
      else if Type action = ActionList then (None, w)
      else if Type action = ActionPatch then executePatch c action w
      else if Type action = ActionDelete then executeDelete c action w
      else if Type action = ActionFinalize then executeFinalize c action w
      else if Type action = ActionWait then executeWait c action w
      else (Some (Err (''unknown action type: '' @ Type action)), w))"

text \<open>
  Verification returns the pair \<open>(bool, error)\<close> of the source, with a panic as a
  third outcome of the error component.
\<close>

definition verifyNoFinalizers ::
    "'w Client \<Rightarrow> ResourceRef \<Rightarrow> 'w \<Rightarrow> (bool \<times> failure option) \<times> 'w" where
  "verifyNoFinalizers c target w =
     (if Kind target = ''Namespace''
      then (case NamespacesGet c (Name target) w of
              (Inl e, w') \<Rightarrow> ((False, Some (Err e)), w')
            | (Inr ns, w') \<Rightarrow> ((length (NsFinalizers ns) = 0, None), w'))
      else if Kind target = ''CustomResourceDefinition''
      then (case CRDsGet c (Name target) w of
              (Inl e, w') \<Rightarrow> ((False, Some (Err e)), w')
            | (Inr crd, w') \<Rightarrow> ((length (CrdFinalizers crd) = 0, None), w'))
      else (case resolveGVR target of
              Inl f \<Rightarrow> ((False, Some f), w)
            | Inr gvr \<Rightarrow>
                (case DynamicGet c gvr (Namespace target) (Name target) w of
                   (Inl e, w') \<Rightarrow> ((False, Some (Err e)), w')
                 | (Inr obj, w') \<Rightarrow> ((length (ObjFinalizers obj) = 0, None), w'))))"

definition verifyDeleted ::
    "'w Client \<Rightarrow> ResourceRef \<Rightarrow> 'w \<Rightarrow> (bool \<times> failure option) \<times> 'w" where
  "verifyDeleted c target w =
     (if Kind target = ''Namespace''
      then (case NamespacesGet c (Name target) w of
              (Inl e, w') \<Rightarrow>
                (if Contains e ''not found'' then ((True, None), w')
                 else ((False, Some (Err e)), w'))
            | (Inr ns, w') \<Rightarrow> ((False, None), w'))
      else if Kind target = ''CustomResourceDefinition''
      then (case CRDsGet c (Name target) w of
              (Inl e, w') \<Rightarrow>
                (if Contains e ''not found'' then ((True, None), w')
                 else ((False, Some (Err e)), w'))
            | (Inr crd, w') \<Rightarrow> ((False, None), w'))
      else (case resolveGVR target of
              Inl (Err e) \<Rightarrow> ((True, None), w)
            | Inl (Panic m) \<Rightarrow> ((False, Some (Panic m)), w)
            | Inr gvr \<Rightarrow>
                (case DynamicGet c gvr (Namespace target) (Name target) w of
                   (Inl e, w') \<Rightarrow>
                     (if Contains e ''not found'' then ((True, None), w')
                      else ((False, Some (Err e)), w'))
                 | (Inr obj, w') \<Rightarrow> ((False, None), w'))))"

definition verifyNamespaceCleared ::
    "'w Client \<Rightarrow> string \<Rightarrow> 'w \<Rightarrow> (bool \<times> failure option) \<times> 'w" where
  "verifyNamespaceCleared c name w =
     (case NamespacesGet c name w of
        (Inl e, w') \<Rightarrow>
          (if Contains e ''not found'' then ((True, None), w')
           else ((False, Some (Err e)), w'))
      | (Inr ns, w') \<Rightarrow> ((NsPhase ns \<noteq> ''Terminating'', None), w'))"

definition Verify :: "'w Client \<Rightarrow> Action \<Rightarrow> 'w \<Rightarrow> (bool \<times> failure option) \<times> 'w" where
  "Verify c action w =
     (if Type action = ActionInspect \<or> Type action = ActionList \<or> Type action = ActionWait
      then ((True, None), w)
      else if Type action = ActionPatch then verifyNoFinalizers c (Target action) w
      else if Type action = ActionDelete then verifyDeleted c (Target action) w
      else if Type action = ActionFinalize
      then verifyNamespaceCleared c (Name (Target action)) w
      else ((False, Some (Err (''unknown action type for verification: '' @ Type action))),
            w))"

datatype SnapshotData =
    NamespaceState "string list" "string option" string
  | CRDState "string list" "string option"
  | ObjectState "string list" string

definition Snapshot :: "'w Client \<Rightarrow> ResourceRef \<Rightarrow> 'w \<Rightarrow> (failure + SnapshotData) \<times> 'w" where
  "Snapshot c target w =
     (if Kind target = ''Namespace''
      then (case NamespacesGet c (Name target) w of
              (Inl e, w') \<Rightarrow> (Inl (Err e), w')
            | (Inr ns, w') \<Rightarrow>
                (Inr (NamespaceState (NsFinalizers ns) (NsDeletionTimestamp ns) (NsPhase ns)),
                 w'))
      else if Kind target = ''CustomResourceDefinition''
      then (case CRDsGet c (Name target) w of
              (Inl e, w') \<Rightarrow> (Inl (Err e), w')
            | (Inr crd, w') \<Rightarrow>
                (Inr (CRDState (CrdFinalizers crd) (CrdDeletionTimestamp crd)), w'))
      else (case resolveGVR target of
              Inl f \<Rightarrow> (Inl f, w)
            | Inr gvr \<Rightarrow>
                (case DynamicGet c gvr (Namespace target) (Name target) w of
                   (Inl e, w') \<Rightarrow> (Inl (Err e), w')
                 | (Inr obj, w') \<Rightarrow>
                     (Inr (ObjectState (ObjFinalizers obj) (ObjDeletionTimestamp obj)), w'))))"

section \<open>Applier (pkg/applier/applier.go)\<close>

text \<open>
  The records of a run. The list of action results, the field \<open>Actions\<close> of
  \<open>ApplyResult\<close> in the source, is \<open>ActionResults\<close> here; the state captured by
  \<open>Snapshot\<close>, an untyped map in the source, is a value of \<open>SnapshotData\<close>.
\<close>

record ActionResult =
  Action :: Action
  Success :: bool
  Error :: string
  Before :: "SnapshotData option"
  After :: "SnapshotData option"

record ApplyResult =
  TotalActions :: int
  Succeeded :: int
  Failed :: int
  Skipped :: int
  ActionResults :: "ActionResult list"
  ExitCode :: int

record 'w Applier =
  client :: "'w Client"
  dryRun :: bool
  continueOnError :: bool
  autoConfirm :: bool
  verbose :: bool

definition calculateExitCode :: "ApplyResult \<Rightarrow> int" where
  "calculateExitCode result =
     (if Failed result = 0 \<and> Skipped result = 0 then 0
      else if Succeeded result = 0 then 1
      else 2)"

text \<open>
  \<open>confirm\<close> reads one word from the terminal with \<open>fmt.Scanln\<close>, given here as
  the function \<open>Scanln\<close> on the world: it returns the word read and the error, if any.
  What \<open>confirm\<close> and the logging functions print is not modelled.
\<close>

definition confirm ::
    "('w \<Rightarrow> (string \<times> error option) \<times> 'w) \<Rightarrow> Action \<Rightarrow> 'w \<Rightarrow> (bool \<times> error option) \<times> 'w"
  where
  "confirm Scanln action w =
     (case Scanln w of
        ((response, err), w') \<Rightarrow>
          (if err \<noteq> None \<and> err \<noteq> Some ''unexpected newline'' then ((False, None), w')
           else ((response = ''y'' \<or> response = ''Y'' \<or> response = ''yes''
                  \<or> response = ''YES'', None), w')))"

text \<open>
  The state of a run of \<open>Apply\<close>: the result being filled in, the world, and a log of
  the calls made to the terminal and to the executor (the log is the call counter of a
  mock executor; the source keeps none). One iteration of the loop ends by going on to
  the next action, by \<open>break\<close>, or by a panic.
\<close>

datatype Call = ConfirmCall Action | SnapshotCall ResourceRef | ExecuteCall Action
  | VerifyCall Action

record 'w Run =
  result :: ApplyResult
  world :: 'w
  calls :: "Call list"

datatype control = Continue | Break | Crash string

definition addResult :: "ActionResult \<Rightarrow> ApplyResult \<Rightarrow> ApplyResult" where
  "addResult actionResult r = r\<lparr>ActionResults := ActionResults r @ [actionResult]\<rparr>"

definition capture :: "'w Applier \<Rightarrow> Action \<Rightarrow> 'w Run \<Rightarrow> (failure + SnapshotData) \<times> 'w Run" where
  "capture a action st =
     (case Snapshot (client a) (Target action) (world st) of
        (snap, w') \<Rightarrow>
          (snap, st\<lparr>world := w', calls := calls st @ [SnapshotCall (Target action)]\<rparr>))"

text \<open>
  The outcome of verification, written into the action result and the counters.
\<close>

definition recordVerify ::
    "bool \<Rightarrow> error option \<Rightarrow> ActionResult \<Rightarrow> ApplyResult \<Rightarrow> ActionResult \<times> ApplyResult" where
  "recordVerify verified verifyErr actionResult r =
     (case verifyErr of
        Some e \<Rightarrow>
          (actionResult\<lparr>Error := ''verification failed: '' @ e, Success := False\<rparr>,
           r\<lparr>Failed := Failed r + 1\<rparr>)
      | None \<Rightarrow>
          (if \<not> verified
           then (actionResult\<lparr>Error := ''post-condition not met'', Success := False\<rparr>,
                 r\<lparr>Failed := Failed r + 1\<rparr>)
           else (actionResult\<lparr>Success := True\<rparr>, r\<lparr>Succeeded := Succeeded r + 1\<rparr>)))"

text \<open>
  The live path, the \<open>else\<close> branch of "execute or simulate", in its three steps:
  \<open>Execute\<close>; on success \<open>Verify\<close>; then the state after (verbose runs only) and
  the append at the end of the loop body.
\<close>

definition finishAction ::
    "'w Applier \<Rightarrow> Action \<Rightarrow> ActionResult \<Rightarrow> 'w Run \<Rightarrow> 'w Run \<times> control" where
  "finishAction a action ar st =
     (if verbose a
      then (case capture a action st of
              (Inl (Panic m), st3) \<Rightarrow> (st3, Crash m)
            | (Inl (Err e), st3) \<Rightarrow> (st3\<lparr>result := addResult ar (result st3)\<rparr>, Continue)
            | (Inr snap, st3) \<Rightarrow>
                (st3\<lparr>result := addResult (ar\<lparr>After := Some snap\<rparr>) (result st3)\<rparr>,
                 Continue))
      else (st\<lparr>result := addResult ar (result st)\<rparr>, Continue))"

definition verifyAction ::
    "'w Applier \<Rightarrow> Action \<Rightarrow> ActionResult \<Rightarrow> 'w Run \<Rightarrow> 'w Run \<times> control" where
  "verifyAction a action actionResult st =
     (case Verify (client a) action (world st) of
        ((verified, verifyErr), w2) \<Rightarrow>
          (let st2 = st\<lparr>world := w2, calls := calls st @ [VerifyCall action]\<rparr>
           in case verifyErr of
                Some (Panic m) \<Rightarrow> (st2, Crash m)
              | Some (Err e) \<Rightarrow>
                  (case recordVerify verified (Some e) actionResult (result st2) of
                     (ar, r) \<Rightarrow> finishAction a action ar (st2\<lparr>result := r\<rparr>))
              | None \<Rightarrow>
                  (case recordVerify verified None actionResult (result st2) of
                     (ar, r) \<Rightarrow> finishAction a action ar (st2\<lparr>result := r\<rparr>))))"

definition liveAction ::
    "'w Applier \<Rightarrow> Action \<Rightarrow> ActionResult \<Rightarrow> 'w Run \<Rightarrow> 'w Run \<times> control" where
  "liveAction a action actionResult st =
     (case Execute (client a) action (world st) of
        (err, w1) \<Rightarrow>
          (let st1 = st\<lparr>world := w1, calls := calls st @ [ExecuteCall action]\<rparr>
           in case err of
                Some (Panic m) \<Rightarrow> (st1, Crash m)
              | Some (Err e) \<Rightarrow>
                  (let ar = actionResult\<lparr>Error := e, Success := False\<rparr>;
                       r = (result st1)\<lparr>Failed := Failed (result st1) + 1\<rparr>
                   in (st1\<lparr>result := addResult ar r\<rparr>,
                       if \<not> continueOnError a then Break else Continue))
              | None \<Rightarrow> verifyAction a action actionResult st1))"

text \<open>
  The loop body after the confirmation check: capture the state before (verbose live
  runs only), then simulate or execute.
\<close>

definition simulateOrExecute ::
    "'w Applier \<Rightarrow> Action \<Rightarrow> ActionResult \<Rightarrow> 'w Run \<Rightarrow> 'w Run \<times> control" where
  "simulateOrExecute a action actionResult st =
     (if dryRun a
      then (let ar = actionResult\<lparr>Success := True\<rparr>;
                r = (result st)\<lparr>Succeeded := Succeeded (result st) + 1\<rparr>
            in (st\<lparr>result := addResult ar r\<rparr>, Continue))
      else liveAction a action actionResult st)"

definition runAction ::
    "'w Applier \<Rightarrow> Action \<Rightarrow> ActionResult \<Rightarrow> 'w Run \<Rightarrow> 'w Run \<times> control" where
  "runAction a action actionResult st =
     (if verbose a \<and> \<not> dryRun a
      then (case capture a action st of
              (Inl (Panic m), st1) \<Rightarrow> (st1, Crash m)
            | (Inl (Err e), st1) \<Rightarrow> simulateOrExecute a action actionResult st1
            | (Inr snap, st1) \<Rightarrow>
                simulateOrExecute a action (actionResult\<lparr>Before := Some snap\<rparr>) st1)
      else simulateOrExecute a action actionResult st)"

text \<open>One iteration of the loop of \<open>Apply\<close>.\<close>

definition applyAction ::
    "'w Applier \<Rightarrow> ('w \<Rightarrow> (string \<times> error option) \<times> 'w) \<Rightarrow> Action \<Rightarrow> 'w Run
       \<Rightarrow> 'w Run \<times> control" where
  "applyAction a Scanln action st =
     (let actionResult = \<lparr>Action = action, Success = False, Error = '''',
                           Before = None, After = None\<rparr>
      in if RequiresForce action \<and> \<not> dryRun a \<and> \<not> autoConfirm a
         then (case confirm Scanln action (world st) of
                 ((confirmed, err), w1) \<Rightarrow>
                   (let st1 = st\<lparr>world := w1, calls := calls st @ [ConfirmCall action]\<rparr>
                    in case err of
                         Some e \<Rightarrow>
                           (let ar = actionResult\<lparr>Error := ''confirmation error: '' @ e,
                                                  Success := False\<rparr>;
                                r = (result st1)\<lparr>Failed := Failed (result st1) + 1\<rparr>
                            in (st1\<lparr>result := addResult ar r\<rparr>,
                                if \<not> continueOnError a then Break else Continue))
                       | None \<Rightarrow>
                           (if \<not> confirmed
                            then (let r = (result st1)\<lparr>Skipped := Skipped (result st1) + 1\<rparr>;
                                      ar = actionResult\<lparr>Success := False,
                                                        Error := ''skipped by user''\<rparr>
                                  in (st1\<lparr>result := addResult ar r\<rparr>, Continue))
                            else runAction a action actionResult st1)))
         else runAction a action actionResult st)"

fun applyLoop ::
    "'w Applier \<Rightarrow> ('w \<Rightarrow> (string \<times> error option) \<times> 'w) \<Rightarrow> Action list \<Rightarrow> 'w Run
       \<Rightarrow> 'w Run \<times> control" where
  "applyLoop a Scanln [] st = (st, Continue)"
| "applyLoop a Scanln (action # rest) st =
     (case applyAction a Scanln action st of
        (st', Continue) \<Rightarrow> applyLoop a Scanln rest st'
      | (st', Break) \<Rightarrow> (st', Break)
      | (st', Crash m) \<Rightarrow> (st', Crash m))"

text \<open>
  \<open>Apply\<close>: \<open>None\<close> is the nil plan. The outcome is an error, a panic or the result,
  together with the world left behind and the log of calls.
\<close>

definition Apply ::
    "'w Applier \<Rightarrow> ('w \<Rightarrow> (string \<times> error option) \<times> 'w) \<Rightarrow> Plan option \<Rightarrow> 'w
       \<Rightarrow> (failure + ApplyResult) \<times> 'w \<times> Call list" where
  "Apply a Scanln plan w =
     (case plan of
        None \<Rightarrow> (Inl (Err ''plan cannot be nil''), w, [])
      | Some p \<Rightarrow>
          (let r0 = \<lparr>TotalActions = int (length (Actions p)), Succeeded = 0, Failed = 0,
                     Skipped = 0, ActionResults = [], ExitCode = 0\<rparr>
           in case applyLoop a Scanln (Actions p) \<lparr>result = r0, world = w, calls = []\<rparr> of
                (st, Crash m) \<Rightarrow> (Inl (Panic m), world st, calls st)
              | (st, ctl) \<Rightarrow>
                  (Inr ((result st)\<lparr>ExitCode := calculateExitCode (result st)\<rparr>),
                   world st, calls st)))"

section \<open>Example inputs\<close>

text \<open>
  A terminating namespace with two blockers and a discovery failure, and the same
  namespace reported as active.
\<close>

definition stuckNamespace :: DiagnosisReport where
  "stuckNamespace =
     \<lparr>DiagTarget = \<lparr>Kind = ''Namespace'', APIVersion = ''v1'', Namespace = '''',
                     Name = ''cert-manager''\<rparr>,
      DiagTargetType = TargetTypeNamespace,
      Status = ''Terminating'',
      Blockers = [\<lparr>Kind = ''Certificate'', APIVersion = ''cert-manager.io/v1'',
                   Namespace = ''cert-manager'', Name = ''web'', Finalizers = [''f'']\<rparr>,
                  \<lparr>Kind = ''Pod'', APIVersion = ''v1'', Namespace = '''', Name = ''a'',
                   Finalizers = [''f'']\<rparr>],
      DiscoveryFailures = [\<lparr>GroupVersion = ''metrics.k8s.io/v1beta1'', FailedResource = '''',
                            FailureError = ''unavailable''\<rparr>],
      Controllers = []\<rparr>"

definition activeNamespace :: DiagnosisReport where
  "activeNamespace = stuckNamespace\<lparr>Status := ''Active''\<rparr>"

text \<open>
  A client whose world is a counter of the calls made to it: every write answers
  \<open>writeResult\<close>, every read of a namespaced object answers \<open>readResult\<close>, and
  namespaces and CRDs are reported gone. Terminal input that answers one fixed line.
\<close>

definition stubClient :: "error option \<Rightarrow> (error + UnstructuredObj) \<Rightarrow> nat Client" where
  "stubClient writeResult readResult =
     \<lparr>NamespacesGet = (\<lambda>name w. (Inl ''namespace not found'', Suc w)),
      NamespacesPatch = (\<lambda>name patch w. (writeResult, Suc w)),
      NamespacesDelete = (\<lambda>name w. (writeResult, Suc w)),
      NamespacesFinalize = (\<lambda>ns w. (writeResult, Suc w)),
      CRDsGet = (\<lambda>name w. (Inl ''crd not found'', Suc w)),
      CRDsPatch = (\<lambda>name patch w. (writeResult, Suc w)),
      CRDsDelete = (\<lambda>name w. (writeResult, Suc w)),
      DynamicGet = (\<lambda>gvr ns name w. (readResult, Suc w)),
      DynamicPatch = (\<lambda>gvr ns name patch w. (writeResult, Suc w)),
      DynamicDelete = (\<lambda>gvr ns name w. (writeResult, Suc w))\<rparr>"

definition answer :: "string \<Rightarrow> error option \<Rightarrow> nat \<Rightarrow> (string \<times> error option) \<times> nat" where
  "answer response err w = ((response, err), Suc w)"

definition podRef :: ResourceRef where
  "podRef = \<lparr>Kind = ''Pod'', APIVersion = ''v1'', Namespace = ''cert-manager'', Name = ''a''\<rparr>"

definition podPatch :: Action where
  "podPatch = finalizerRemovalAction \<lparr>maxEscalation = 4, allowForce = True\<rparr>
                \<lparr>Kind = ''Pod'', APIVersion = ''v1'', Namespace = ''cert-manager'', Name = ''a'',
                 Finalizers = [''f'']\<rparr> ''cert-manager''"

definition forcePlan :: Plan where
  "forcePlan = projr (Plan \<lparr>maxEscalation = 4, allowForce = True\<rparr> (Some stuckNamespace))"

definition liveApplier :: "nat Client \<Rightarrow> nat Applier" where
  "liveApplier c = \<lparr>client = c, dryRun = False, continueOnError = False,
                    autoConfirm = False, verbose = False\<rparr>"

definition dryApplier :: "nat Client \<Rightarrow> nat Applier" where
  "dryApplier c = \<lparr>client = c, dryRun = True, continueOnError = False,
                   autoConfirm = False, verbose = True\<rparr>"




text \<open>
  Finalizer-removal actions for cluster-scoped objects, and an edge map saying that
  pod \<open>c\<close> is owned by deployment \<open>d\<close>.
\<close>

definition patchOf :: "string \<Rightarrow> string \<Rightarrow> Action" where
  "patchOf kind name =
     finalizerRemovalAction \<lparr>maxEscalation = 2, allowForce = False\<rparr>
       \<lparr>Kind = kind, APIVersion = ''v1'', Namespace = '''', Name = name, Finalizers = [''f'']\<rparr>
       ''''"

definition podOwnedByDeployment :: "(string \<times> string list) list" where
  "podOwnedByDeployment = [(''Pod/c'', [''Deployment/d''])]"

section \<open>Notions used to state the properties of the applier\<close>


definition healthyPlan :: Plan where
  "healthyPlan = projr (Plan \<lparr>maxEscalation = 2, allowForce = False\<rparr> (Some activeNamespace))"

definition simulated :: "Action \<Rightarrow> ActionResult" where
  "simulated action = \<lparr>Action = action, Success = True, Error = '''', Before = None, After = None\<rparr>"

definition counters :: "ApplyResult \<Rightarrow> int \<times> int \<times> int" where
  "counters r = (Succeeded r, Failed r, Skipped r)"

section \<open>Case-insensitive comparison of kinds\<close>

text \<open>
  Two bytes are the same letter when they are equal or one is an upper-case ASCII letter
  and the other its lower-case form; two strings are the same ignoring case when they
  have the same length and agree in this sense at every position.
\<close>

definition sameLetter :: "char \<Rightarrow> char \<Rightarrow> bool" where
  "sameLetter a b \<longleftrightarrow>
     a = b \<or> (isUpperChar a \<and> b = lowerChar a) \<or> (isUpperChar b \<and> a = lowerChar b)"

definition sameIgnoringCase :: "string \<Rightarrow> string \<Rightarrow> bool" where
  "sameIgnoringCase s t \<longleftrightarrow> list_all2 sameLetter s t"

section \<open>Properties of the planner\<close>

lemma set_insertStable: "set (insertStable lt x xs) = insert x (set xs)"
  by (induction xs) auto

lemma set_SliceStable: "set (SliceStable lt xs) = set xs"
  by (induction xs) (auto simp: set_insertStable)

lemma set_OrderByDependencies: "set (OrderByDependencies actions) = set actions"
  by (simp add: OrderByDependencies_def set_SliceStable)

lemma map_snd_enumerate: "map (\<lambda>x. f (snd x)) (enumerate n xs) = map f xs"
  by (induction xs arbitrary: n) auto

lemma map_level_assignIDs:
  "map EscalationLevel (assignIDs actions) = map EscalationLevel actions"
  by (simp add: assignIDs_def case_prod_beta comp_def map_snd_enumerate)

lemma levels_assignIDs:
  "EscalationLevel ` set (assignIDs actions) = EscalationLevel ` set actions"
  using map_level_assignIDs[of actions] by (metis set_map)

lemma level_simps [simp]:
  "EscalationLevel (finalizerRemovalAction p b ns) = EscalationFinalizer"
  "EscalationLevel (crdFinalizerAction p t) = EscalationCRD"
  "EscalationLevel (forceFinalize p n) = EscalationForce"
  by (simp_all add: finalizerRemovalAction_def Let_def crdFinalizerAction_def forceFinalize_def)

lemma info_levels: "a \<in> set (infoActions p d) \<Longrightarrow> EscalationLevel a = EscalationInfo"
  by (auto simp: infoActions_def)

lemma clean_levels: "a \<in> set (cleanPathActions p d) \<Longrightarrow> EscalationLevel a = EscalationClean"
  by (auto simp: cleanPathActions_def)

text \<open>
  Every gathered action carries one of the five levels, and a level above \<open>Info\<close>
  only when its guard held.
\<close>

lemma gather_levels:
  assumes "a \<in> set (gatherActions p d)"
  shows "EscalationLevel a = EscalationInfo
   \<or> EscalationLevel a = EscalationClean \<and> maxEscalation p \<ge> EscalationClean
   \<or> EscalationLevel a = EscalationFinalizer \<and> maxEscalation p \<ge> EscalationFinalizer
   \<or> EscalationLevel a = EscalationCRD \<and> maxEscalation p \<ge> EscalationCRD \<and> allowForce p
   \<or> EscalationLevel a = EscalationForce \<and> maxEscalation p \<ge> EscalationForce \<and> allowForce p"
proof -
  from assms consider
      (info) "a \<in> set (infoActions p d)"
    | (clean) "maxEscalation p \<ge> EscalationClean" "a \<in> set (cleanPathActions p d)"
    | (fin) "maxEscalation p \<ge> EscalationFinalizer"
        "a \<in> set (map (\<lambda>blocker. finalizerRemovalAction p blocker (Namespace (DiagTarget d)))
                 (Blockers d))"
    | (crd) "maxEscalation p \<ge> EscalationCRD" "allowForce p"
        "a = crdFinalizerAction p (DiagTarget d)"
    | (force) "maxEscalation p \<ge> EscalationForce" "allowForce p"
        "a = forceFinalize p (Name (DiagTarget d))"
    unfolding gatherActions_def set_append Un_iff
    by (auto split: if_splits)
  then show ?thesis
  proof cases
    case info then show ?thesis by (simp add: info_levels)
  next
    case clean then show ?thesis by (simp add: clean_levels)
  next
    case fin then show ?thesis by auto
  next
    case crd then show ?thesis by simp
  next
    case force then show ?thesis by simp
  qed
qed

text \<open>
  The level of every action of a returned plan is the level of a gathered action:
  ordering permutes the actions and the numbering changes only \<open>ID\<close>.
\<close>

lemma plan_levels:
  assumes "Plan p diagnosis = Inr plan" and "a \<in> set (Actions plan)"
  obtains d a' where "diagnosis = Some d" and "a' \<in> set (gatherActions p d)"
    and "EscalationLevel a' = EscalationLevel a"
proof -
  from assms obtain d where d: "diagnosis = Some d"
    by (cases diagnosis) (auto simp: Plan_def)
  from assms d have nh: "\<not> IsHealthy d"
    by (auto simp: Plan_def Let_def split: if_splits)
  with assms d have "Actions plan = assignIDs (OrderByDependencies (gatherActions p d))"
    by (auto simp: Plan_def Let_def)
  with assms have "EscalationLevel a \<in> EscalationLevel ` set (gatherActions p d)"
    using levels_assignIDs[of "OrderByDependencies (gatherActions p d)"]
    by (simp add: set_OrderByDependencies) blast
  with d that show ?thesis by auto
qed

lemma Plan_stuckNamespace_force_off:
  "Plan \<lparr>maxEscalation = 4, allowForce = False\<rparr> (Some stuckNamespace)
     = Inr (projr (Plan \<lparr>maxEscalation = 4, allowForce = False\<rparr> (Some stuckNamespace)))"
  by (simp add: Plan_def stuckNamespace_def IsHealthy_def Let_def)

lemma Plan_stuckNamespace_length:
  "length (Actions (projr (Plan \<lparr>maxEscalation = 4, allowForce = False\<rparr>
                                (Some stuckNamespace)))) = 4"
  by code_simp

text \<open>
  Claim C1 (force gating). When the planner is configured with \<open>allowForce = false\<close>,
  a plan returned by \<open>Plan\<close> contains no action whose escalation level is at least
  3 (\<open>EscalationCRD\<close>), whatever \<open>maxEscalation\<close> is.
\<close>

theorem Plan_force_gating:
  assumes "\<not> allowForce p" and "Plan p diagnosis = Inr plan"
  shows "filter (\<lambda>a. EscalationLevel a \<ge> 3) (Actions plan) = []"
proof -
  have "EscalationLevel a < 3" if "a \<in> set (Actions plan)" for a
  proof -
    from assms(2) that obtain d a' where "a' \<in> set (gatherActions p d)"
      and eq: "EscalationLevel a' = EscalationLevel a"
      by (rule plan_levels)
    from gather_levels[OF this(1)] assms(1) eq show ?thesis
      by (auto simp: const_defs)
  qed
  then show ?thesis by (simp add: filter_empty_conv not_le)
qed

theorem Plan_force_gating_witness:
  "\<not> allowForce \<lparr>maxEscalation = 4, allowForce = False\<rparr>
   \<and> length (Actions (projr (Plan \<lparr>maxEscalation = 4, allowForce = False\<rparr>
                                   (Some stuckNamespace)))) = 4
   \<and> filter (\<lambda>a. EscalationLevel a \<ge> 3)
        (Actions (projr (Plan \<lparr>maxEscalation = 4, allowForce = False\<rparr>
                              (Some stuckNamespace)))) = []"
proof -
  have h: "\<not> allowForce \<lparr>maxEscalation = 4, allowForce = False\<rparr>" by simp
  from Plan_force_gating[OF h Plan_stuckNamespace_force_off] h Plan_stuckNamespace_length
  show ?thesis by blast
qed

lemma Plan_stuckNamespace_finalizer:
  "Plan \<lparr>maxEscalation = 2, allowForce = False\<rparr> (Some stuckNamespace)
     = Inr (projr (Plan \<lparr>maxEscalation = 2, allowForce = False\<rparr> (Some stuckNamespace)))"
  by (simp add: Plan_def stuckNamespace_def IsHealthy_def Let_def)

lemma Plan_stuckNamespace_finalizer_levels:
  "map EscalationLevel
     (Actions (projr (Plan \<lparr>maxEscalation = 2, allowForce = False\<rparr>
                           (Some stuckNamespace)))) = [0, 0, 2, 2]"
  by code_simp

text \<open>
  Claim C3 (level ceiling). For every diagnosis and every configured ceiling
  \<open>maxEscalation = L\<close>, every action of the plan returned by \<open>Plan\<close> has an
  escalation level of at most \<open>L\<close>. The ceiling is an escalation level, one of
  \<open>Info\<close> (0) to \<open>Force\<close> (4): the command line rejects any other value before
  it builds the planner. The theorem asks only that the ceiling is not below the lowest
  level, which all five levels satisfy.
\<close>

theorem Plan_level_ceiling:
  assumes "0 \<le> maxEscalation p" and "Plan p diagnosis = Inr plan"
  shows "\<forall>a \<in> set (Actions plan). EscalationLevel a \<le> maxEscalation p"
proof
  fix a assume "a \<in> set (Actions plan)"
  with assms(2) obtain d a' where "a' \<in> set (gatherActions p d)"
      and eq: "EscalationLevel a' = EscalationLevel a"
      by (rule plan_levels)
  from gather_levels[OF this(1)] assms(1) eq show "EscalationLevel a \<le> maxEscalation p"
    by (auto simp: const_defs)
qed

theorem Plan_level_ceiling_witness:
  "0 \<le> maxEscalation \<lparr>maxEscalation = 2, allowForce = False\<rparr>
   \<and> map EscalationLevel
         (Actions (projr (Plan \<lparr>maxEscalation = 2, allowForce = False\<rparr>
                               (Some stuckNamespace)))) = [0, 0, 2, 2]
   \<and> list_all (\<lambda>a. EscalationLevel a \<le> maxEscalation \<lparr>maxEscalation = 2, allowForce = False\<rparr>)
         (Actions (projr (Plan \<lparr>maxEscalation = 2, allowForce = False\<rparr>
                               (Some stuckNamespace))))"
proof -
  have h: "0 \<le> maxEscalation \<lparr>maxEscalation = 2, allowForce = False\<rparr>" by simp
  from Plan_level_ceiling[OF h Plan_stuckNamespace_finalizer] h
    Plan_stuckNamespace_finalizer_levels
  show ?thesis unfolding list_all_iff by blast
qed

lemma Plan_healthy:
  "IsHealthy d \<Longrightarrow>
   Plan p (Some d) = Inr \<lparr>PlanTarget = DiagTarget d, RiskLevel = '''',
                          MaxEscalation = maxEscalation p, Actions = [], Commands = []\<rparr>"
  by (simp add: Plan_def)

text \<open>
  Claim C2 (healthy short-circuit), evaluated at an active namespace: the returned plan
  has no actions and no commands, but its \<open>RiskLevel\<close> is the empty string, the zero
  value left by the early return, and not \<open>RiskNone\<close> (the string \<open>none\<close>), which
  \<open>CalculateRiskLevel\<close> gives for an empty action list on the path that is skipped.
\<close>

theorem Plan_healthy_risk_unset:
  "Plan \<lparr>maxEscalation = 2, allowForce = False\<rparr> (Some activeNamespace)
     = Inr \<lparr>PlanTarget = DiagTarget activeNamespace, RiskLevel = '''',
            MaxEscalation = 2, Actions = [], Commands = []\<rparr>
   \<and> '''' \<noteq> RiskNone
   \<and> CalculateRiskLevel [] = RiskNone"
  by (simp add: Plan_def activeNamespace_def IsHealthy_def RiskNone_def CalculateRiskLevel_def)

section \<open>Properties of the resource priority table\<close>

lemma lowerChar_not_upper: "\<not> isUpperChar (lowerChar c)"
  by (auto simp: lowerChar_def isUpperChar_def)

lemma lowerChar_idem: "lowerChar (lowerChar c) = lowerChar c"
  using lowerChar_not_upper[of c] by (simp add: lowerChar_def[of "lowerChar c"])

lemma lowerChar_inj_upper:
  assumes "isUpperChar a" "isUpperChar b" "lowerChar a = lowerChar b"
  shows "a = b"
proof -
  from assms have "char_of (of_char a + (32::nat)) = char_of (of_char b + (32::nat))"
    by (simp add: lowerChar_def)
  then have "(of_char (char_of (of_char a + (32::nat))) :: nat)
             = of_char (char_of (of_char b + (32::nat)))"
    by simp
  with assms(1,2) have "(of_char a :: nat) = of_char b"
    by (simp add: isUpperChar_def)
  then show ?thesis by simp
qed

text \<open>Two bytes are the same letter exactly when lowering makes them equal.\<close>

lemma sameLetter_iff: "sameLetter a b \<longleftrightarrow> lowerChar a = lowerChar b"
proof
  assume "sameLetter a b"
  then show "lowerChar a = lowerChar b"
    unfolding sameLetter_def by (auto simp: lowerChar_idem)
next
  assume eq: "lowerChar a = lowerChar b"
  show "sameLetter a b"
  proof (cases "isUpperChar a")
    case ua: True
    show ?thesis
    proof (cases "isUpperChar b")
      case True
      from ua True eq have "a = b" by (rule lowerChar_inj_upper)
      then show ?thesis by (simp add: sameLetter_def)
    next
      case False
      with eq have "b = lowerChar a" by (simp add: lowerChar_def[of b])
      with ua show ?thesis by (simp add: sameLetter_def)
    qed
  next
    case False
    with eq have "a = lowerChar b" by (simp add: lowerChar_def[of a])
    then show ?thesis
      by (cases "isUpperChar b") (simp_all add: sameLetter_def lowerChar_def[of b])
  qed
qed

lemma sameIgnoringCase_iff: "sameIgnoringCase s t \<longleftrightarrow> ToLower s = ToLower t"
  unfolding sameIgnoringCase_def ToLower_def sameLetter_iff
  by (auto simp: list_all2_conv_all_nth list_eq_iff_nth_eq)

lemma ToLower_names:
  "ToLower ''pod'' = ''pod''" "ToLower ''configmap'' = ''configmap''"
  "ToLower ''secret'' = ''secret''" "ToLower ''service'' = ''service''"
  "ToLower ''endpoint'' = ''endpoint''" "ToLower ''endpoints'' = ''endpoints''"
  "ToLower ''deployment'' = ''deployment''" "ToLower ''statefulset'' = ''statefulset''"
  "ToLower ''daemonset'' = ''daemonset''" "ToLower ''replicaset'' = ''replicaset''"
  "ToLower ''job'' = ''job''" "ToLower ''cronjob'' = ''cronjob''"
  "ToLower ''certificate'' = ''certificate''" "ToLower ''issuer'' = ''issuer''"
  "ToLower ''clusterissuer'' = ''clusterissuer''"
  "ToLower ''CustomResourceDefinition'' = ''customresourcedefinition''"
  "ToLower ''Namespace'' = ''namespace''"
  "ToLower ''StatefulSet'' = ''statefulset''"
  by code_simp+

text \<open>
  Claim C7 as stated (the kinds mapped to 10 are pod, configmap, secret, service,
  endpoints, and every kind outside the listed ones maps to 50) fails at the kind
  \<open>endpoint\<close>: it is none of the listed kinds, also ignoring case, and its priority
  is 10.
\<close>

theorem resourcePriority_counterexample:
  "resourcePriority ''endpoint'' = 10
   \<and> \<not> list_ex (sameIgnoringCase ''endpoint'')
         [''pod'', ''configmap'', ''secret'', ''service'', ''endpoints'',
          ''deployment'', ''statefulset'', ''daemonset'', ''replicaset'', ''job'', ''cronjob'',
          ''certificate'', ''issuer'', ''clusterissuer'',
          ''CustomResourceDefinition'', ''Namespace'']"
  unfolding sameIgnoringCase_iff resourcePriority_def Let_def leafKinds_def
  by (simp add: ToLower_names)

text \<open>
  Claim C7, amended (priority table). For a kind of ASCII bytes, \<open>resourcePriority\<close>
  is a fixed table looked up without regard to letter case: pod, configmap, secret,
  service, endpoint, endpoints map to 10; deployment, statefulset, daemonset, replicaset,
  job, cronjob map to 20; certificate, issuer, clusterissuer map to 30;
  CustomResourceDefinition maps to 100; Namespace maps to 200; every other kind maps
  to 50.
\<close>

theorem resourcePriority_table:
  assumes "isASCII kind"
  shows "resourcePriority kind =
     (if list_ex (sameIgnoringCase kind)
           [''pod'', ''configmap'', ''secret'', ''service'', ''endpoint'', ''endpoints'']
      then 10
      else if list_ex (sameIgnoringCase kind)
           [''deployment'', ''statefulset'', ''daemonset'', ''replicaset'', ''job'', ''cronjob'']
      then 20
      else if list_ex (sameIgnoringCase kind) [''certificate'', ''issuer'', ''clusterissuer'']
      then 30
      else if sameIgnoringCase kind ''CustomResourceDefinition'' then 100
      else if sameIgnoringCase kind ''Namespace'' then 200
      else 50)"
  unfolding sameIgnoringCase_iff resourcePriority_def Let_def
    leafKinds_def workloadKinds_def customKinds_def
  by (simp add: ToLower_names)

theorem resourcePriority_table_witness:
  "isASCII ''StatefulSet'' \<and> resourcePriority ''StatefulSet'' = 20"
proof -
  have h: "isASCII ''StatefulSet''" by (simp add: isASCII_def)
  from resourcePriority_table[OF h] h show ?thesis
    by (simp add: sameIgnoringCase_iff ToLower_names)
qed

section \<open>Properties of the executor\<close>

lemma splitFrom_nonempty: "splitFrom cur s sep \<noteq> []"
  by (induction s arbitrary: cur) auto

lemma Split_length: "length (Split s sep) \<ge> 1"
  using splitFrom_nonempty[of "[]" s sep] by (simp add: Split_def Suc_le_eq)

lemma HasSuffix_nonempty: "HasSuffix s ''y'' \<Longrightarrow> 1 \<le> length s"
  by (cases s) (auto simp: HasSuffix_def)

text \<open>The slice in \<open>pluralize\<close> is taken only of a string that ends in \<open>y\<close>.\<close>

lemma pluralize_total: "\<exists>r. pluralize kind = Inr r"
proof (cases "HasSuffix (ToLower kind) ''y''")
  case True
  then have "1 \<le> length (ToLower kind)" by (rule HasSuffix_nonempty)
  then have "\<exists>stem. sliceTo (ToLower kind) (int (length (ToLower kind)) - 1) = Inr stem"
    by (simp add: sliceTo_def Suc_le_eq)
  then show ?thesis by (auto simp: pluralize_def Let_def)
next
  case False
  then show ?thesis by (simp add: pluralize_def Let_def)
qed

text \<open>
  \<open>Split\<close> returns at least one part, and \<open>parts[1]\<close> is read only when there is
  more than one.
\<close>

lemma resolveGVR_total: "\<exists>gvr. resolveGVR target = Inr gvr"
proof -
  define gv where "gv = (if APIVersion target = '''' then ''v1'' else APIVersion target)"
  define parts where "parts = Split gv (CHR ''/'')"
  have len: "1 \<le> length parts" unfolding parts_def by (rule Split_length)
  obtain r where r: "pluralize (Kind target) = Inr r"
    using pluralize_total by blast
  have i0: "index parts 0 = Inr (parts ! 0)"
    using len by (simp add: index_def Suc_le_eq)
  show ?thesis
  proof (cases "length parts = 1")
    case True
    with i0 r show ?thesis
      by (simp add: resolveGVR_def Let_def gv_def[symmetric] parts_def[symmetric])
  next
    case False
    with len have "index parts 1 = Inr (parts ! 1)" by (simp add: index_def)
    with False i0 r show ?thesis
      by (simp add: resolveGVR_def Let_def gv_def[symmetric] parts_def[symmetric])
  qed
qed

lemma patchDynamicResource_client:
  "patchDynamicResource c target w =
     asFailure (DynamicPatch c (projr (resolveGVR target)) (Namespace target) (Name target)
                  patchData w)"
  using resolveGVR_total[of target] by (auto simp: patchDynamicResource_def)

lemma executeDelete_client:
  "Kind (Target action) \<noteq> ''Namespace'' \<Longrightarrow>
   Kind (Target action) \<noteq> ''CustomResourceDefinition'' \<Longrightarrow>
   executeDelete c action w =
     asFailure (DynamicDelete c (projr (resolveGVR (Target action)))
                  (Namespace (Target action)) (Name (Target action)) w)"
  using resolveGVR_total[of "Target action"] by (auto simp: executeDelete_def Let_def)

lemma verifyDeleted_client:
  "Kind target \<noteq> ''Namespace'' \<Longrightarrow> Kind target \<noteq> ''CustomResourceDefinition'' \<Longrightarrow>
   verifyDeleted c target w =
     (case DynamicGet c (projr (resolveGVR target)) (Namespace target) (Name target) w of
        (Inl e, w') \<Rightarrow>
          (if Contains e ''not found'' then ((True, None), w')
           else ((False, Some (Err e)), w'))
      | (Inr obj, w') \<Rightarrow> ((False, None), w'))"
  using resolveGVR_total[of target] by (auto simp: verifyDeleted_def)

lemma verifyNoFinalizers_client:
  "Kind target \<noteq> ''Namespace'' \<Longrightarrow> Kind target \<noteq> ''CustomResourceDefinition'' \<Longrightarrow>
   verifyNoFinalizers c target w =
     (case DynamicGet c (projr (resolveGVR target)) (Namespace target) (Name target) w of
        (Inl e, w') \<Rightarrow> ((False, Some (Err e)), w')
      | (Inr obj, w') \<Rightarrow> ((length (ObjFinalizers obj) = 0, None), w'))"
  using resolveGVR_total[of target] by (auto simp: verifyNoFinalizers_def)

lemma Snapshot_client:
  "Kind target \<noteq> ''Namespace'' \<Longrightarrow> Kind target \<noteq> ''CustomResourceDefinition'' \<Longrightarrow>
   Snapshot c target w =
     (case DynamicGet c (projr (resolveGVR target)) (Namespace target) (Name target) w of
        (Inl e, w') \<Rightarrow> (Inl (Err e), w')
      | (Inr obj, w') \<Rightarrow>
          (Inr (ObjectState (ObjFinalizers obj) (ObjDeletionTimestamp obj)), w'))"
  using resolveGVR_total[of target] by (auto simp: Snapshot_def)





text \<open>
  Claim C10 (GVR resolution is total). For every target, also one with an empty kind or
  an empty API version, \<open>resolveGVR\<close> returns a group/version/resource coordinate:
  no error and no panic. Every branch that guards its failure is therefore dead:
  \<open>patchDynamicResource\<close> and, for a kind other than Namespace and
  CustomResourceDefinition, \<open>executeDelete\<close>, \<open>verifyDeleted\<close>,
  \<open>verifyNoFinalizers\<close> and \<open>Snapshot\<close> return what the client's call on the
  resolved coordinate gives; in particular \<open>verifyDeleted\<close> reports a deletion only
  when the read answers "not found".
\<close>

theorem resolveGVR_never_fails:
  "(\<exists>gvr. resolveGVR (Target action) = Inr gvr)
   \<and> patchDynamicResource c (Target action) w =
       asFailure (DynamicPatch c (projr (resolveGVR (Target action)))
                    (Namespace (Target action)) (Name (Target action)) patchData w)
   \<and> (Kind (Target action) \<noteq> ''Namespace''
        \<and> Kind (Target action) \<noteq> ''CustomResourceDefinition'' \<longrightarrow>
        executeDelete c action w =
          asFailure (DynamicDelete c (projr (resolveGVR (Target action)))
                       (Namespace (Target action)) (Name (Target action)) w)
      \<and> verifyDeleted c (Target action) w =
          (case DynamicGet c (projr (resolveGVR (Target action)))
                  (Namespace (Target action)) (Name (Target action)) w of
             (Inl e, w') \<Rightarrow>
               (if Contains e ''not found'' then ((True, None), w')
                else ((False, Some (Err e)), w'))
           | (Inr obj, w') \<Rightarrow> ((False, None), w'))
      \<and> verifyNoFinalizers c (Target action) w =
          (case DynamicGet c (projr (resolveGVR (Target action)))
                  (Namespace (Target action)) (Name (Target action)) w of
             (Inl e, w') \<Rightarrow> ((False, Some (Err e)), w')
           | (Inr obj, w') \<Rightarrow> ((length (ObjFinalizers obj) = 0, None), w'))
      \<and> Snapshot c (Target action) w =
          (case DynamicGet c (projr (resolveGVR (Target action)))
                  (Namespace (Target action)) (Name (Target action)) w of
             (Inl e, w') \<Rightarrow> (Inl (Err e), w')
           | (Inr obj, w') \<Rightarrow>
               (Inr (ObjectState (ObjFinalizers obj) (ObjDeletionTimestamp obj)), w')))"
  using resolveGVR_total[of "Target action"] patchDynamicResource_client[of c "Target action" w]
    executeDelete_client[of action c w] verifyDeleted_client[of "Target action" c w]
    verifyNoFinalizers_client[of "Target action" c w] Snapshot_client[of "Target action" c w]
  by blast

lemma podPatch_target: "Target podPatch = podRef"
  by (simp add: podPatch_def podRef_def finalizerRemovalAction_def Let_def)

lemma podRef_gvr: "resolveGVR podRef = Inr \<lparr>Group = '''', Version = ''v1'', Resource = ''pods''\<rparr>"
  by code_simp

theorem resolveGVR_never_fails_witness:
  "Kind (Target podPatch) \<noteq> ''Namespace''
   \<and> Kind (Target podPatch) \<noteq> ''CustomResourceDefinition''
   \<and> resolveGVR (Target podPatch) = Inr \<lparr>Group = '''', Version = ''v1'', Resource = ''pods''\<rparr>
   \<and> resolveGVR \<lparr>Kind = '''', APIVersion = '''', Namespace = '''', Name = ''a''\<rparr>
       = Inr \<lparr>Group = '''', Version = ''v1'', Resource = ''s''\<rparr>
   \<and> verifyDeleted (stubClient None (Inl ''pods a not found'')) (Target podPatch) 0
       = ((True, None), 1)
   \<and> verifyDeleted (stubClient None (Inl ''timeout'')) (Target podPatch) 0
       = ((False, Some (Err ''timeout'')), 1)"
proof -
  have k: "Kind (Target podPatch) \<noteq> ''Namespace''
           \<and> Kind (Target podPatch) \<noteq> ''CustomResourceDefinition''"
    by (simp add: podPatch_target podRef_def)
  have c1: "Contains ''pods a not found'' ''not found''" by code_simp
  have c2: "\<not> Contains ''timeout'' ''not found''" by code_simp
  have empty: "resolveGVR \<lparr>Kind = '''', APIVersion = '''', Namespace = '''', Name = ''a''\<rparr>
       = Inr \<lparr>Group = '''', Version = ''v1'', Resource = ''s''\<rparr>"
    by code_simp
  from resolveGVR_never_fails[of podPatch "stubClient None (Inl ''pods a not found'')" 0]
       resolveGVR_never_fails[of podPatch "stubClient None (Inl ''timeout'')" 0]
       k c1 c2 podRef_gvr empty
  show ?thesis
    by (simp add: podPatch_target stubClient_def)
qed

section \<open>Properties of the applier\<close>


lemma counters_addResult [simp]: "counters (addResult ar r) = counters r"
  by (simp add: counters_def addResult_def)





















lemma calculateExitCode_ExitCode [simp]:
  "calculateExitCode (r\<lparr>ExitCode := x\<rparr>) = calculateExitCode r"
  by (simp add: calculateExitCode_def)

lemma Apply_ExitCode:
  assumes "Apply a Scanln plan w = (Inr r, w', cs)"
  shows "ExitCode r = calculateExitCode r"
proof (cases plan)
  case None
  with assms show ?thesis by (simp add: Apply_def)
next
  case (Some p)
  with assms show ?thesis
    by (auto simp: Apply_def Let_def split: prod.splits control.splits)
qed

lemma healthyPlan_eq:
  "healthyPlan = \<lparr>PlanTarget = DiagTarget activeNamespace, RiskLevel = '''',
                   MaxEscalation = 2, Actions = [], Commands = []\<rparr>"
  by (simp add: healthyPlan_def Plan_def activeNamespace_def IsHealthy_def)

text \<open>
  Claim C4 as stated (exit code 1 if and only if \<open>succeeded = 0\<close>, and exit code 0
  for an empty plan) contradicts itself on the empty plan, and the code settles it in
  favour of the first test: applying the plan of a healthy target gives
  \<open>succeeded = 0\<close> and exit code 0, not 1.
\<close>

theorem Apply_exit_code_counterexample:
  "Apply (liveApplier (stubClient None (Inl ''timeout''))) (answer ''n'' None) (Some healthyPlan) 0
     = (Inr \<lparr>TotalActions = 0, Succeeded = 0, Failed = 0, Skipped = 0, ActionResults = [],
              ExitCode = 0\<rparr>, 0, [])
   \<and> (0::int) \<noteq> 1"
  by (simp add: Apply_def healthyPlan_eq calculateExitCode_def)

text \<open>
  Claim C4, amended (exit code law). For every result returned by \<open>Apply\<close>, the
  exit code is 0 iff \<open>failed = 0\<close> and \<open>skipped = 0\<close>; it is 1 iff \<open>succeeded = 0\<close>
  and not both \<open>failed\<close> and \<open>skipped\<close> are 0; it is 2 iff \<open>succeeded \<noteq> 0\<close> and
  not both are 0. An empty plan yields zero counts and exit code 0, without any call to
  the terminal or the executor.
\<close>

theorem Apply_exit_code:
  "(Apply a Scanln plan w = (Inr r, w', cs) \<longrightarrow>
      (ExitCode r = 0 \<longleftrightarrow> Failed r = 0 \<and> Skipped r = 0)
    \<and> (ExitCode r = 1 \<longleftrightarrow> Succeeded r = 0 \<and> \<not> (Failed r = 0 \<and> Skipped r = 0))
    \<and> (ExitCode r = 2 \<longleftrightarrow> Succeeded r \<noteq> 0 \<and> \<not> (Failed r = 0 \<and> Skipped r = 0)))
   \<and> (Actions p = [] \<longrightarrow>
        Apply a Scanln (Some p) w
          = (Inr \<lparr>TotalActions = 0, Succeeded = 0, Failed = 0, Skipped = 0,
                   ActionResults = [], ExitCode = 0\<rparr>, w, []))"
proof -
  have "ExitCode r = calculateExitCode r" if "Apply a Scanln plan w = (Inr r, w', cs)"
    using that by (rule Apply_ExitCode)
  moreover have "Actions p = [] \<Longrightarrow>
        Apply a Scanln (Some p) w
          = (Inr \<lparr>TotalActions = 0, Succeeded = 0, Failed = 0, Skipped = 0,
                   ActionResults = [], ExitCode = 0\<rparr>, w, [])"
    by (simp add: Apply_def calculateExitCode_def)
  ultimately show ?thesis
    by (auto simp: calculateExitCode_def split: if_splits)
qed

lemma applyAction_dry:
  "dryRun a \<Longrightarrow>
   applyAction a Scanln action st =
     (st\<lparr>result := (result st)\<lparr>Succeeded := Succeeded (result st) + 1,
                                ActionResults := ActionResults (result st) @ [simulated action]\<rparr>\<rparr>,
      Continue)"
  by (simp add: applyAction_def runAction_def simulateOrExecute_def addResult_def simulated_def
        Let_def)

lemma applyLoop_dry:
  "dryRun a \<Longrightarrow>
   applyLoop a Scanln actions st =
     (st\<lparr>result := (result st)\<lparr>Succeeded := Succeeded (result st) + int (length actions),
                                ActionResults := ActionResults (result st) @ map simulated actions\<rparr>\<rparr>,
      Continue)"
proof (induction actions arbitrary: st)
  case Nil
  then show ?case by simp
next
  case (Cons action rest)
  then show ?case by (simp add: applyAction_dry add.commute add.left_commute)
qed

text \<open>
  Claim C6 (dry-run purity). With \<open>dryRun = true\<close>, \<open>Apply\<close> on any plan records
  every action as succeeded (\<open>succeeded = totalActions\<close>, \<open>failed = 0\<close>,
  \<open>skipped = 0\<close>), makes no call at all to the terminal or to the executor (neither
  \<open>Execute\<close> nor \<open>Verify\<close> nor \<open>Snapshot\<close>), and leaves the world as it was.
\<close>

theorem Apply_dry_run:
  assumes "dryRun a"
  shows "Apply a Scanln (Some plan) w =
           (Inr \<lparr>TotalActions = int (length (Actions plan)),
                 Succeeded = int (length (Actions plan)),
                 Failed = 0, Skipped = 0,
                 ActionResults = map simulated (Actions plan),
                 ExitCode = 0\<rparr>,
            w, [])"
  using assms by (simp add: Apply_def Let_def applyLoop_dry calculateExitCode_def)

lemma forcePlan_length: "length (Actions forcePlan) = 5"
  by code_simp

lemma forcePlan_force: "map RequiresForce (Actions forcePlan) = [False, False, False, False, True]"
  by code_simp

theorem Apply_dry_run_witness:
  "dryRun (dryApplier (stubClient (Some ''forbidden'') (Inl ''timeout'')))
   \<and> map RequiresForce (Actions forcePlan) = [False, False, False, False, True]
   \<and> Apply (dryApplier (stubClient (Some ''forbidden'') (Inl ''timeout''))) (answer ''n'' None)
        (Some forcePlan) 0
       = (Inr \<lparr>TotalActions = 5, Succeeded = 5, Failed = 0, Skipped = 0,
                ActionResults = map simulated (Actions forcePlan), ExitCode = 0\<rparr>, 0, [])"
proof -
  have h: "dryRun (dryApplier (stubClient (Some ''forbidden'') (Inl ''timeout'')))"
    by (simp add: dryApplier_def)
  from Apply_dry_run[OF h, of "answer ''n'' None" forcePlan 0] h forcePlan_force
  show ?thesis by (simp add: forcePlan_length)
qed

theorem Apply_exit_code_witness:
  "Apply (dryApplier (stubClient None (Inl ''timeout''))) (answer ''n'' None) (Some forcePlan) 0
     = (Inr \<lparr>TotalActions = 5, Succeeded = 5, Failed = 0, Skipped = 0,
              ActionResults = map simulated (Actions forcePlan), ExitCode = 0\<rparr>, 0, [])
   \<and> Actions healthyPlan = []
   \<and> Apply (dryApplier (stubClient None (Inl ''timeout''))) (answer ''n'' None)
        (Some healthyPlan) 0
       = (Inr \<lparr>TotalActions = 0, Succeeded = 0, Failed = 0, Skipped = 0, ActionResults = [],
                ExitCode = 0\<rparr>, 0, [])"
proof -
  have run: "Apply (dryApplier (stubClient None (Inl ''timeout''))) (answer ''n'' None)
               (Some forcePlan) 0
     = (Inr \<lparr>TotalActions = 5, Succeeded = 5, Failed = 0, Skipped = 0,
              ActionResults = map simulated (Actions forcePlan), ExitCode = 0\<rparr>, 0, [])"
    by (simp add: Apply_def Let_def applyLoop_dry calculateExitCode_def dryApplier_def
          forcePlan_length)
  have e: "Actions healthyPlan = []" by (simp add: healthyPlan_eq)
  from Apply_exit_code[where a="dryApplier (stubClient None (Inl ''timeout''))"
         and Scanln="answer ''n'' None" and plan="Some forcePlan" and w=0 and w'=0
         and cs="[]" and p=healthyPlan
         and r="\<lparr>TotalActions = 5, Succeeded = 5, Failed = 0, Skipped = 0,
              ActionResults = map simulated (Actions forcePlan), ExitCode = 0\<rparr>"] run e
  show ?thesis by blast
qed














section \<open>Evaluation of the topological sort\<close>

text \<open>
  Before any edge is looked at, the key of every action is in the in-degree map: the
  actions without dependencies are nodes of the graph like the others.
\<close>

lemma store_keeps: "map_of m k \<noteq> None \<Longrightarrow> map_of (store k' v m) k \<noteq> None"
  by (induction m) auto

lemma store_has: "map_of (store k v m) k = Some v"
  by (induction m) auto

lemma initDegrees_keeps: "map_of m k \<noteq> None \<Longrightarrow> map_of (initDegrees actions m) k \<noteq> None"
proof (induction actions arbitrary: m)
  case Nil
  then show ?case by simp
next
  case (Cons a actions)
  let ?m' = "if map_of m (resourceKey (Target a)) = None
             then store (resourceKey (Target a)) 0 m else m"
  from Cons.prems have "map_of ?m' k \<noteq> None"
    using store_keeps[of m k "resourceKey (Target a)" 0] by presburger
  from Cons.IH[OF this] show ?case by (simp add: Let_def)
qed

lemma initDegrees_registers:
  "action \<in> set actions \<Longrightarrow>
   map_of (initDegrees actions m) (resourceKey (Target action)) \<noteq> None"
proof (induction actions arbitrary: m)
  case Nil
  then show ?case by simp
next
  case (Cons a actions)
  show ?case
  proof (cases "action = a")
    case True
    have "map_of (if map_of m (resourceKey (Target a)) = None
                  then store (resourceKey (Target a)) 0 m else m)
            (resourceKey (Target a)) \<noteq> None"
      by (simp add: store_has)
    then show ?thesis
      using True by (simp add: Let_def initDegrees_keeps)
  next
    case False
    with Cons.prems have "action \<in> set actions" by simp
    then show ?thesis by (simp add: Let_def Cons.IH)
  qed
qed

text \<open>
  Claim C8 (actions outside the edge map are appended at the end in input order),
  evaluated on four actions and the edge "pod \<open>c\<close> is owned by deployment \<open>d\<close>".
  The keys of pods \<open>a\<close> and \<open>b\<close> occur nowhere in the edge map. The first loop gives
  every action's key in-degree 0, so both keys enter Kahn's queue and are emitted by it:
  in the result pod \<open>b\<close> precedes pod \<open>a\<close>, against the input order, and deployment
  \<open>d\<close> comes after both. The final loop, commented "add any actions not in the sorted
  list (no dependencies)", finds nothing left to add. Of two actions with the same key
  outside the edge map only the last is returned.
\<close>

theorem TopologicalSort_unrelated_actions:
  "TopologicalSort
     [patchOf ''Pod'' ''a'', patchOf ''Pod'' ''b'', patchOf ''Pod'' ''c'',
      patchOf ''Deployment'' ''d''] podOwnedByDeployment
     = [patchOf ''Pod'' ''c'', patchOf ''Pod'' ''b'', patchOf ''Pod'' ''a'',
        patchOf ''Deployment'' ''d'']
   \<and> map (\<lambda>action. resourceKey (Target action))
         [patchOf ''Pod'' ''a'', patchOf ''Pod'' ''b'', patchOf ''Pod'' ''c'',
          patchOf ''Deployment'' ''d'']
       = [''Pod/a'', ''Pod/b'', ''Pod/c'', ''Deployment/d'']
   \<and> ''Pod/a'' \<notin> set (map fst podOwnedByDeployment @ concat (map snd podOwnedByDeployment))
   \<and> ''Pod/b'' \<notin> set (map fst podOwnedByDeployment @ concat (map snd podOwnedByDeployment))
   \<and> TopologicalSort
         [patchOf ''Pod'' ''a'', (patchOf ''Pod'' ''a'')\<lparr>Operation := ''again''\<rparr>]
         podOwnedByDeployment
       = [(patchOf ''Pod'' ''a'')\<lparr>Operation := ''again''\<rparr>]"
  by code_simp

end
